theory Spec2Isabelle
  imports Complex_Main
begin

section \<open>The dataset conversion session of \<^verbatim>\<open>dataset_conversion_new.py\<close>\<close>

text \<open>
  The theory embeds the class \<^verbatim>\<open>DatasetConversion\<close>: its constructor, the window
  extraction of \<^verbatim>\<open>txt_to_dataset\<close> with its growing buffers, and the decoder
  \<^verbatim>\<open>dataset_to_str\<close>. Python integers are \<open>int\<close>, numpy's float arrays are
  lists of \<open>real\<close> (NaN and the infinities are not represented), a raised exception is
  the left injection of a sum.
\<close>

subsection \<open>Exceptions, constants and the session object\<close>

datatype py_error =
  TypeError | ValueError | IndexError | KeyError | ZeroDivisionError
  | UnboundLocalError | SystemExit int

text \<open>\<^verbatim>\<open>exit(1)\<close> raises \<^verbatim>\<open>SystemExit(1)\<close>, which ends the process.\<close>

fun terminates_process :: "py_error \<Rightarrow> bool" where
  "terminates_process (SystemExit code) = True"
| "terminates_process e = False"

definition DEFAULT_NUM_INPUT :: int where
  "DEFAULT_NUM_INPUT = 16"

definition DEFAULT_NUM_OUTPUT :: int where
  "DEFAULT_NUM_OUTPUT = 1"

text \<open>
  The two dictionaries are association lists in insertion order, so that \<^verbatim>\<open>len\<close>
  is the length of the list; a lookup is \<open>map_of\<close>.
\<close>

record DatasetConversion =
  data_to_int :: "(string \<times> int) list"
  int_to_data :: "(int \<times> string) list"
  dir_path :: string
  sep_by_type :: string

text \<open>
  \<^verbatim>\<open>__init__\<close> (lines 31-40). The message printed before \<^verbatim>\<open>exit(1)\<close> is not
  part of the model.
\<close>

definition init :: "string \<Rightarrow> string \<Rightarrow> py_error + DatasetConversion" where
  "init directory_path sep =
     (if sep \<in> set [''word'', ''char'']
      then Inr \<lparr>data_to_int = [], int_to_data = [],
                dir_path = directory_path, sep_by_type = sep\<rparr>
      else Inl (SystemExit 1))"

text \<open>Sequencing: an exception raised by the first computation is the result.\<close>

definition and_then :: "'e + 'a \<Rightarrow> ('a \<Rightarrow> 'e + 'b) \<Rightarrow> 'e + 'b" where
  "and_then m f = (case m of Inl e \<Rightarrow> Inl e | Inr x \<Rightarrow> f x)"

subsection \<open>Python and numpy primitives\<close>

text \<open>A 2-D array is the list of its rows, a 3-D array the list of its 2-D slices.\<close>

type_synonym matrix = "real list list"

type_synonym tensor = "real list list list"

definition shape0 :: "matrix \<Rightarrow> nat" where
  "shape0 m = length m"

definition shape1 :: "matrix \<Rightarrow> nat" where
  "shape1 m = (case m of [] \<Rightarrow> 0 | r # rs \<Rightarrow> length r)"

text \<open>\<^verbatim>\<open>xs[a:b]\<close>: a negative bound counts from the end, and both are clipped.\<close>

definition py_slice :: "'a list \<Rightarrow> int \<Rightarrow> int \<Rightarrow> 'a list" where
  "py_slice xs a b =
     (let n = int (length xs);
          lo = (if a < 0 then max (n + a) 0 else min a n);
          hi = (if b < 0 then max (n + b) 0 else min b n)
      in take (nat (hi - lo)) (drop (nat lo) xs))"

text \<open>
  The position that index \<open>k\<close> names in a sequence of length \<open>n\<close>: a negative
  index counts from the end; out of range raises.
\<close>

definition py_index :: "nat \<Rightarrow> int \<Rightarrow> py_error + nat" where
  "py_index n k =
     (let j = (if k < 0 then int n + k else k)
      in if 0 \<le> j \<and> j < int n then Inr (nat j) else Inl IndexError)"

text \<open>\<^verbatim>\<open>np.zeros((a, b, c))\<close> refuses a negative dimension.\<close>

definition np_zeros :: "int \<Rightarrow> int \<Rightarrow> int \<Rightarrow> py_error + tensor" where
  "np_zeros a b c =
     (if a < 0 \<or> b < 0 \<or> c < 0 then Inl ValueError
      else Inr (replicate (nat a) (replicate (nat b) (replicate (nat c) 0))))"

text \<open>\<^verbatim>\<open>dataset[:, a:b]\<close>: the same column slice of every row.\<close>

definition col_slice :: "matrix \<Rightarrow> int \<Rightarrow> int \<Rightarrow> matrix" where
  "col_slice m a b = map (\<lambda>row. py_slice row a b) m"

text \<open>Row-major regrouping of a flat list into \<open>r\<close> rows of \<open>c\<close> entries.\<close>

fun split_rows :: "nat \<Rightarrow> nat \<Rightarrow> 'a list \<Rightarrow> 'a list list" where
  "split_rows 0 c xs = []"
| "split_rows (Suc r) c xs = take c xs # split_rows r c (drop c xs)"

text \<open>
  \<^verbatim>\<open>m.reshape(1, r, c)\<close>, given as the single \<open>r \<times> c\<close> slice of the result: the
  sizes must agree. The source only calls it with \<open>c\<close> a size that \<^verbatim>\<open>np.zeros\<close>
  has accepted, so \<open>c\<close> is not negative there.
\<close>

definition reshape_1 :: "matrix \<Rightarrow> nat \<Rightarrow> int \<Rightarrow> py_error + matrix" where
  "reshape_1 m r c =
     (if c < 0 \<or> length (concat m) \<noteq> r * nat c then Inl ValueError
      else Inr (split_rows r (nat c) (concat m)))"

text \<open>
  \<^verbatim>\<open>X[k] = v\<close> for \<open>X\<close> of shape \<open>(n, 128, c)\<close> and \<open>v\<close> of shape \<open>(1, r, c)\<close>:
  the index is resolved first, then \<open>v\<close> is broadcast to \<open>(128, c)\<close>, which needs
  \<open>r = 128\<close> or \<open>r = 1\<close>.
\<close>

definition broadcast_128 :: "matrix \<Rightarrow> py_error + matrix" where
  "broadcast_128 v =
     (if length v = 128 then Inr v
      else if length v = 1 then Inr (replicate 128 (hd v))
      else Inl ValueError)"

definition set_example :: "tensor \<Rightarrow> int \<Rightarrow> matrix \<Rightarrow> py_error + tensor" where
  "set_example X k v =
     and_then (py_index (length X) k) (\<lambda>j.
     and_then (broadcast_128 v) (\<lambda>w.
     Inr (X[j := w])))"

subsection \<open>\<^verbatim>\<open>txt_to_dataset\<close>\<close>

text \<open>
  The inner loop (lines 103-117) has the state \<open>(X, Y, extend_sz)\<close>. Lines 111-114:
  the buffers grow by \<open>extend_sz\<close> zero examples when index \<open>k\<close> is past their end.
\<close>

definition grow ::
  "int \<Rightarrow> int \<Rightarrow> int \<Rightarrow> tensor \<times> tensor \<times> int \<Rightarrow> py_error + tensor \<times> tensor \<times> int" where
  "grow num_input_size num_output_size k st =
     (case st of (X, Y, extend_sz) \<Rightarrow>
        if k \<ge> int (length X)
        then and_then (np_zeros extend_sz 128 num_input_size) (\<lambda>ZX.
             and_then (np_zeros extend_sz 128 num_output_size) (\<lambda>ZY.
             Inr (X @ ZX, Y @ ZY, extend_sz * 2)))
        else Inr (X, Y, extend_sz))"

text \<open>Lines 105-106 and 108-109: the two windows of example \<open>idx\<close>.\<close>

definition input_x :: "matrix \<Rightarrow> int \<Rightarrow> int \<Rightarrow> int \<Rightarrow> py_error + matrix" where
  "input_x dataset num_input_size step idx =
     reshape_1 (col_slice dataset (idx * step) (idx * step + num_input_size))
       (shape0 dataset) num_input_size"

definition output_y :: "matrix \<Rightarrow> int \<Rightarrow> int \<Rightarrow> int \<Rightarrow> int \<Rightarrow> py_error + matrix" where
  "output_y dataset num_input_size num_output_size step idx =
     (let total_size_per_feed = num_input_size + num_output_size in
      reshape_1 (col_slice dataset (idx * step + num_input_size)
                   (idx * step + total_size_per_feed))
        (shape0 dataset) num_output_size)"

definition example_step ::
  "matrix \<Rightarrow> int \<Rightarrow> int \<Rightarrow> int \<Rightarrow> int \<Rightarrow> int \<Rightarrow> tensor \<times> tensor \<times> int
     \<Rightarrow> py_error + tensor \<times> tensor \<times> int" where
  "example_step dataset num_input_size num_output_size step file_example_start_idx idx st =
     and_then (input_x dataset num_input_size step idx) (\<lambda>x.
     and_then (output_y dataset num_input_size num_output_size step idx) (\<lambda>y.
     and_then (grow num_input_size num_output_size (file_example_start_idx + idx) st)
       (\<lambda>(X, Y, extend_sz).
     and_then (set_example X (file_example_start_idx + idx) x) (\<lambda>X'.
     and_then (set_example Y (file_example_start_idx + idx) y) (\<lambda>Y'.
     Inr (X', Y', extend_sz))))))"

text \<open>\<^verbatim>\<open>for idx in range(num_examples)\<close>, over the list of the indices.\<close>

fun example_loop ::
  "matrix \<Rightarrow> int \<Rightarrow> int \<Rightarrow> int \<Rightarrow> int \<Rightarrow> int list \<Rightarrow> tensor \<times> tensor \<times> int
     \<Rightarrow> py_error + tensor \<times> tensor \<times> int" where
  "example_loop dataset num_input_size num_output_size step file_example_start_idx [] st =
     Inr st"
| "example_loop dataset num_input_size num_output_size step file_example_start_idx
     (idx # idxs) st =
     and_then (example_step dataset num_input_size num_output_size step
                 file_example_start_idx idx st)
       (example_loop dataset num_input_size num_output_size step
          file_example_start_idx idxs)"

text \<open>\<^verbatim>\<open>range(n)\<close> is empty for \<open>n \<le> 0\<close>.\<close>

definition py_range :: "int \<Rightarrow> int list" where
  "py_range n = map int [0..<nat n]"

text \<open>Line 97: Python's \<^verbatim>\<open>//\<close> rounds down, as \<open>div\<close> on \<open>int\<close> does.\<close>

definition num_examples :: "int \<Rightarrow> int \<Rightarrow> matrix \<Rightarrow> int" where
  "num_examples total_size_per_feed step dataset =
     (int (shape1 dataset) - total_size_per_feed) div step"

text \<open>
  One pass of the outer loop (lines 87-119) for one file, given as the matrix that
  \<^verbatim>\<open>utils.str_to_np\<close> has read from it. The state is the loop state of the inner
  loop and \<open>file_example_start_idx\<close>. Line 119 adds \<open>num_examples\<close> as it is, also
  when it is negative.
\<close>

definition file_step ::
  "int \<Rightarrow> int \<Rightarrow> int \<Rightarrow> matrix \<Rightarrow> (tensor \<times> tensor \<times> int) \<times> int
     \<Rightarrow> py_error + (tensor \<times> tensor \<times> int) \<times> int" where
  "file_step num_input_size num_output_size step dataset acc =
     (case acc of (st, file_example_start_idx) \<Rightarrow>
        (let total_size_per_feed = num_input_size + num_output_size in
         if step = 0 then Inl ZeroDivisionError
         else
           and_then (example_loop dataset num_input_size num_output_size step
                       file_example_start_idx
                       (py_range (num_examples total_size_per_feed step dataset)) st)
             (\<lambda>st'.
           Inr (st', file_example_start_idx
                       + num_examples total_size_per_feed step dataset))))"

fun file_loop ::
  "int \<Rightarrow> int \<Rightarrow> int \<Rightarrow> matrix list \<Rightarrow> (tensor \<times> tensor \<times> int) \<times> int
     \<Rightarrow> py_error + (tensor \<times> tensor \<times> int) \<times> int" where
  "file_loop num_input_size num_output_size step [] acc = Inr acc"
| "file_loop num_input_size num_output_size step (dataset # files) acc =
     and_then (file_step num_input_size num_output_size step dataset acc)
       (file_loop num_input_size num_output_size step files)"

text \<open>
  \<^verbatim>\<open>txt_to_dataset\<close> (lines 59-121). \<^verbatim>\<open>utils\<close> is not part of the sources: the
  parameter \<open>txtfiles\<close> maps a directory to the matrices that \<^verbatim>\<open>utils.str_to_np\<close>
  reads from its text files, in the order of \<^verbatim>\<open>utils.get_files_by_ext\<close>. An omitted
  window size is \<open>None\<close>; \<open>step\<close> is passed by the caller (\<open>1\<close> when omitted).
  Line 73 tests \<^verbatim>\<open>input_window_size\<close> where it selects the output size, so
  \<open>num_output_size\<close> is \<^verbatim>\<open>None\<close> when only the input size is given, and the sum of
  line 79 raises.
\<close>

definition txt_to_dataset ::
  "(string \<Rightarrow> matrix list) \<Rightarrow> DatasetConversion \<Rightarrow> int option \<Rightarrow> int option \<Rightarrow> int
     \<Rightarrow> py_error + tensor \<times> tensor" where
  "txt_to_dataset txtfiles self input_window_size output_window_size step =
     (let num_input_size =
            (case input_window_size of None \<Rightarrow> DEFAULT_NUM_INPUT | Some v \<Rightarrow> v);
          num_output_size =
            (case input_window_size of None \<Rightarrow> Some DEFAULT_NUM_OUTPUT
             | Some v \<Rightarrow> output_window_size);
          txtfile_list = txtfiles (dir_path self)
      in and_then (case num_output_size of None \<Rightarrow> Inl TypeError | Some v \<Rightarrow> Inr v)
           (\<lambda>num_output_size.
         (let extend_sz = 10000 in
          and_then (np_zeros extend_sz 128 num_input_size) (\<lambda>X.
          and_then (np_zeros extend_sz 128 num_output_size) (\<lambda>Y.
          and_then (file_loop num_input_size num_output_size step txtfile_list
                      ((X, Y, extend_sz), 0))
            (\<lambda>((X', Y', extend_sz'), file_example_start_idx).
          Inr (py_slice X' 0 file_example_start_idx,
               py_slice Y' 0 file_example_start_idx)))))))"

subsection \<open>\<^verbatim>\<open>dataset_to_str\<close>\<close>

text \<open>An n-dimensional array: a number, or the list of its slices along the first axis.\<close>

datatype 'a ndarray = Scalar 'a | Arr "'a ndarray list"

primrec flatten :: "'a ndarray \<Rightarrow> 'a list" where
  "flatten (Scalar x) = [x]"
| "flatten (Arr xs) = concat (map flatten xs)"

text \<open>
  \<^verbatim>\<open>np.around\<close> rounds to the nearest integer and a tie to the even neighbour. Its
  result is a float with an integral value, given here as the integer.
\<close>

definition np_around :: "real \<Rightarrow> int" where
  "np_around x =
     (let f = \<lfloor>x\<rfloor>; d = x - of_int f
      in if d < 1 / 2 then f else if 1 / 2 < d then f + 1
         else if even f then f else f + 1)"

text \<open>
  Lines 136-140: scale, round, clamp and flatten. The product is the exact product of
  reals. numpy rounds the product to the float type of \<open>Y\<close> before \<^verbatim>\<open>np.around\<close>
  sees it, and lets NaN pass both clamps; so this is the code's index list where no entry
  of \<open>Y\<close> is NaN or infinite and the rounding of the product does not move it across a
  tie or an integer, as when the vocabulary size is 0 (the product is 0) and when the
  entry is an index divided by the vocabulary size (the product is within rounding error
  of the index). The theorems use it at such arrays only.
\<close>

definition vocabulary_indices :: "DatasetConversion \<Rightarrow> real ndarray \<Rightarrow> int list" where
  "vocabulary_indices self Y =
     (let n = int (length (int_to_data self));
          Y1 = map_ndarray (\<lambda>y. np_around (y * of_int n)) Y;
          Y2 = map_ndarray (\<lambda>y. min (max y 0) (n - 1)) Y1
      in flatten Y2)"

text \<open>\<^verbatim>\<open>d[k]\<close> on a dictionary raises \<^verbatim>\<open>KeyError\<close> for an absent key.\<close>

definition getitem :: "('k \<times> 'v) list \<Rightarrow> 'k \<Rightarrow> py_error + 'v" where
  "getitem d k = (case map_of d k of None \<Rightarrow> Inl KeyError | Some v \<Rightarrow> Inr v)"

text \<open>Line 142: the list comprehension stops at the first failing lookup.\<close>

fun lookup_each :: "('k \<times> 'v) list \<Rightarrow> 'k list \<Rightarrow> py_error + 'v list" where
  "lookup_each d [] = Inr []"
| "lookup_each d (k # ks) =
     and_then (getitem d k) (\<lambda>v.
     and_then (lookup_each d ks) (\<lambda>vs.
     Inr (v # vs)))"

text \<open>\<^verbatim>\<open>sep.join(xs)\<close>.\<close>

fun py_join :: "string \<Rightarrow> string list \<Rightarrow> string" where
  "py_join sep [] = []"
| "py_join sep [x] = x"
| "py_join sep (x # y # ys) = x @ sep @ py_join sep (y # ys)"

text \<open>
  \<^verbatim>\<open>dataset_to_str\<close> (lines 123-148). \<^verbatim>\<open>SEPARATOR\<close> is
  \<^verbatim>\<open>chr(utils.NOTES_SIZE)\<close>, a constant of the module that is not part of the
  sources, and is a parameter here. With a \<^verbatim>\<open>sep_by_type\<close> that is neither
  \<^verbatim>\<open>'word'\<close> nor \<^verbatim>\<open>'char'\<close> the name \<^verbatim>\<open>str_output\<close> is unbound at line 148.
\<close>

definition dataset_to_str ::
  "string \<Rightarrow> DatasetConversion \<Rightarrow> real ndarray \<Rightarrow> py_error + string" where
  "dataset_to_str SEPARATOR self Y =
     and_then (lookup_each (int_to_data self) (vocabulary_indices self Y)) (\<lambda>Y_str.
     if sep_by_type self = ''word'' then Inr (py_join SEPARATOR Y_str)
     else if sep_by_type self = ''char'' then Inr (py_join [] Y_str)
     else Inl UnboundLocalError)"

subsection \<open>The session's life\<close>

text \<open>
  The calls a client can make on a session. None of the four method bodies assigns to a
  field of \<^verbatim>\<open>self\<close> or hands \<^verbatim>\<open>self\<close> or one of its dictionaries to another
  function (\<^verbatim>\<open>midi_to_txt\<close> and \<^verbatim>\<open>txt_to_dataset\<close> pass the string
  \<^verbatim>\<open>self.dir_path\<close> only), so the object after a call, whether the call returns or
  raises, is the object before it.
\<close>

datatype method_call =
  Midi_to_txt
  | Txt_to_dataset "int option" "int option" int
  | Dataset_to_str "real ndarray"
  | Str_to_midi string "string option"

fun self_after :: "DatasetConversion \<Rightarrow> method_call \<Rightarrow> DatasetConversion" where
  "self_after self Midi_to_txt = self"
| "self_after self (Txt_to_dataset input_window_size output_window_size step) = self"
| "self_after self (Dataset_to_str Y) = self"
| "self_after self (Str_to_midi text_string filename) = self"

inductive reachable :: "DatasetConversion \<Rightarrow> bool" where
  constructed: "init directory_path sep = Inr self \<Longrightarrow> reachable self"
| called: "reachable self \<Longrightarrow> reachable (self_after self c)"

subsection \<open>Notions of the specification\<close>

text \<open>
  Modelled from the spec: \<^verbatim>\<open>utils.str_to_np\<close> is not part of the sources. The
  specification gives its result as a timestep matrix of 128 pitch rows and one column
  per timestep; \<open>T\<close> is the number of timesteps.
\<close>

definition timestep_matrix :: "matrix \<Rightarrow> nat \<Rightarrow> bool" where
  "timestep_matrix m T = (length m = 128 \<and> (\<forall>row \<in> set m. length row = T))"

text \<open>Columns \<open>[a, a + w)\<close> of a matrix.\<close>

definition columns :: "matrix \<Rightarrow> nat \<Rightarrow> nat \<Rightarrow> matrix" where
  "columns m a w = map (\<lambda>row. take w (drop a row)) m"

text \<open>
  The examples a file is meant to give: window pair \<open>j\<close> for every \<open>j\<close> below the
  example count of line 97.
\<close>

definition file_inputs :: "int \<Rightarrow> int \<Rightarrow> int \<Rightarrow> matrix \<Rightarrow> tensor" where
  "file_inputs n m step d =
     map (\<lambda>j. columns d (nat (int j * step)) (nat n))
       [0..<nat (num_examples (n + m) step d)]"

definition file_outputs :: "int \<Rightarrow> int \<Rightarrow> int \<Rightarrow> matrix \<Rightarrow> tensor" where
  "file_outputs n m step d =
     map (\<lambda>j. columns d (nat (int j * step + n)) (nat m))
       [0..<nat (num_examples (n + m) step d)]"

text \<open>A file that is a timestep matrix at least as wide as one window pair.\<close>

definition long_enough :: "int \<Rightarrow> int \<Rightarrow> matrix \<Rightarrow> bool" where
  "long_enough n m d = (timestep_matrix d (shape1 d) \<and> n + m \<le> int (shape1 d))"

text \<open>
  A construction is rejected with an error result when it raises something that does not
  end the process.
\<close>

definition rejected_with_error_result :: "py_error + DatasetConversion \<Rightarrow> bool" where
  "rejected_with_error_result r =
     (case r of Inl e \<Rightarrow> \<not> terminates_process e | Inr self \<Rightarrow> False)"








section \<open>Properties\<close>

subsection \<open>Primitives\<close>

lemma and_then_Inr: "and_then (Inr x) f = f x"
  by (simp add: and_then_def)

lemma and_then_Inl: "and_then (Inl e) f = Inl e"
  by (simp add: and_then_def)

lemma py_slice_prefix: "0 \<le> b \<Longrightarrow> py_slice xs 0 b = take (nat b) xs"
  by (auto simp: py_slice_def Let_def min_def)

lemma py_slice_inside:
  "0 \<le> a \<Longrightarrow> a \<le> b \<Longrightarrow> b \<le> int (length xs) \<Longrightarrow>
   py_slice xs a b = take (nat (b - a)) (drop (nat a) xs)"
  by (auto simp: py_slice_def Let_def min_def)

lemma split_rows_concat:
  "\<forall>row \<in> set m. length row = c \<Longrightarrow> split_rows (length m) c (concat m) = m"
  by (induction m) auto

lemma length_concat_rows:
  "\<forall>row \<in> set m. length row = c \<Longrightarrow> length (concat m) = length m * c"
  by (induction m) auto

lemma reshape_1_rows:
  "0 \<le> c \<Longrightarrow> \<forall>row \<in> set m. length row = nat c \<Longrightarrow> reshape_1 m (length m) c = Inr m"
  by (simp add: reshape_1_def split_rows_concat length_concat_rows)

lemma shape1_timestep_matrix: "timestep_matrix m T \<Longrightarrow> shape1 m = T"
  by (cases m) (auto simp: timestep_matrix_def shape1_def)

lemma py_index_inside: "0 \<le> k \<Longrightarrow> k < int n \<Longrightarrow> py_index n k = Inr (nat k)"
  by (simp add: py_index_def)

lemma set_example_inside:
  "0 \<le> k \<Longrightarrow> k < int (length X) \<Longrightarrow> length v = 128 \<Longrightarrow>
   set_example X k v = Inr (X[nat k := v])"
  by (simp add: set_example_def py_index_inside broadcast_128_def and_then_Inr)



lemma col_slice_columns:
  assumes "\<forall>row \<in> set m. length row = T" "0 \<le> a" "0 \<le> w" "a + w \<le> int T"
  shows "col_slice m a (a + w) = columns m (nat a) (nat w)"
  unfolding col_slice_def columns_def
proof (rule map_cong[OF refl])
  fix row assume "row \<in> set m"
  with assms have "a + w \<le> int (length row)" by simp
  with assms show "py_slice row a (a + w) = take (nat w) (drop (nat a) row)"
    by (simp add: py_slice_inside)
qed

lemma columns_rows:
  assumes "\<forall>row \<in> set m. length row = T" "a + w \<le> T"
  shows "\<forall>row \<in> set (columns m a w). length row = w"
  using assms by (auto simp: columns_def)

lemma length_columns: "length (columns m a w) = length m"
  by (simp add: columns_def)

lemma input_x_columns:
  assumes "\<forall>row \<in> set d. length row = T" "0 \<le> n" "0 \<le> idx * step"
    "idx * step + n \<le> int T"
  shows "input_x d n step idx = Inr (columns d (nat (idx * step)) (nat n))"
proof -
  have rows: "\<forall>row \<in> set (columns d (nat (idx * step)) (nat n)). length row = nat n"
    using assms by (intro columns_rows[where T = T]) auto
  show ?thesis
    unfolding input_x_def shape0_def
    using reshape_1_rows[OF assms(2) rows] assms
    by (simp add: col_slice_columns[where T = T] length_columns)
qed

lemma output_y_columns:
  assumes "\<forall>row \<in> set d. length row = T" "0 \<le> n" "0 \<le> k" "0 \<le> idx * step"
    "idx * step + n + k \<le> int T"
  shows "output_y d n k step idx = Inr (columns d (nat (idx * step + n)) (nat k))"
proof -
  have rows: "\<forall>row \<in> set (columns d (nat (idx * step + n)) (nat k)). length row = nat k"
    using assms by (intro columns_rows[where T = T]) auto
  have eq: "idx * step + (n + k) = (idx * step + n) + k" by simp
  show ?thesis
    unfolding output_y_def shape0_def Let_def eq
    using reshape_1_rows[OF assms(3) rows] assms
    by (simp add: col_slice_columns[where T = T] length_columns)
qed



lemma grow_ok:
  assumes "0 \<le> n" "0 \<le> m" "0 < ext" "length Y = length X" "k \<le> length X"
  obtains X1 Y1 ext1 where
    "grow n m (int k) (X, Y, ext) = Inr (X1, Y1, ext1)"
    "length Y1 = length X1" "k < length X1"
    "take k X1 = take k X" "take k Y1 = take k Y" "0 < ext1"
proof (cases "k = length X")
  case True
  let ?ZX = "replicate (nat ext) (replicate 128 (replicate (nat n) (0::real)))"
  let ?ZY = "replicate (nat ext) (replicate 128 (replicate (nat m) (0::real)))"
  have "grow n m (int k) (X, Y, ext) = Inr (X @ ?ZX, Y @ ?ZY, ext * 2)"
    using assms True by (simp add: grow_def np_zeros_def and_then_Inr)
  moreover have "k < length (X @ ?ZX)" using assms True by simp
  ultimately show ?thesis using assms True by (intro that[of "X @ ?ZX" "Y @ ?ZY" "ext * 2"]) auto
next
  case False
  with assms have "k < length X" by simp
  then have "grow n m (int k) (X, Y, ext) = Inr (X, Y, ext)"
    by (simp add: grow_def)
  then show ?thesis using assms \<open>k < length X\<close> by (intro that[of X Y ext]) auto
qed

lemma take_Suc_update:
  "k < length xs \<Longrightarrow> take (Suc k) (xs[k := v]) = take k xs @ [v]"
  by (simp add: take_Suc_conv_app_nth)

lemma example_step_ok:
  assumes rows: "\<forall>row \<in> set d. length row = T" and d: "length d = 128"
    and sz: "0 \<le> n" "0 \<le> m" and pos: "0 \<le> idx * step" "idx * step + n + m \<le> int T"
    and k: "start + idx = int k"
    and buf: "0 < ext" "length Y = length X" "k \<le> length X"
  obtains X' Y' ext' where
    "example_step d n m step start idx (X, Y, ext) = Inr (X', Y', ext')"
    "length Y' = length X'" "Suc k \<le> length X'" "0 < ext'"
    "take (Suc k) X' = take k X @ [columns d (nat (idx * step)) (nat n)]"
    "take (Suc k) Y' = take k Y @ [columns d (nat (idx * step + n)) (nat m)]"
proof -
  let ?x = "columns d (nat (idx * step)) (nat n)"
  let ?y = "columns d (nat (idx * step + n)) (nat m)"
  have x: "input_x d n step idx = Inr ?x"
    using rows sz pos by (intro input_x_columns[where T = T]) auto
  have y: "output_y d n m step idx = Inr ?y"
    using rows sz pos by (intro output_y_columns[where T = T]) auto
  obtain X1 Y1 ext1 where g: "grow n m (int k) (X, Y, ext) = Inr (X1, Y1, ext1)"
    and g1: "length Y1 = length X1" "k < length X1"
      "take k X1 = take k X" "take k Y1 = take k Y" "0 < ext1"
    using grow_ok[OF sz buf] by blast
  have sx: "set_example X1 (int k) ?x = Inr (X1[k := ?x])"
    using g1 d by (simp add: set_example_inside length_columns)
  have sy: "set_example Y1 (int k) ?y = Inr (Y1[k := ?y])"
    using g1 d by (simp add: set_example_inside length_columns)
  have "example_step d n m step start idx (X, Y, ext) = Inr (X1[k := ?x], Y1[k := ?y], ext1)"
    by (simp add: example_step_def x y k g sx sy and_then_Inr)
  then show ?thesis
    using g1 by (intro that[of "X1[k := ?x]" "Y1[k := ?y]" ext1]) (simp_all add: take_Suc_update)
qed

lemma example_loop_ok:
  assumes rows: "\<forall>row \<in> set d. length row = T" and d: "length d = 128"
    and sz: "0 \<le> n" "0 \<le> m" and step: "0 \<le> step"
    and fits: "int c * step + n + m \<le> int T"
  shows "i \<le> c \<Longrightarrow> 0 < ext \<Longrightarrow> length Y = length X \<Longrightarrow> s + i \<le> length X \<Longrightarrow>
    \<exists>X' Y' ext'.
      example_loop d n m step (int s) (map int [i..<c]) (X, Y, ext) = Inr (X', Y', ext') \<and>
      length Y' = length X' \<and> s + c \<le> length X' \<and> 0 < ext' \<and>
      take (s + c) X' =
        take (s + i) X @ map (\<lambda>j. columns d (nat (int j * step)) (nat n)) [i..<c] \<and>
      take (s + c) Y' =
        take (s + i) Y @ map (\<lambda>j. columns d (nat (int j * step + n)) (nat m)) [i..<c]"
proof (induction "c - i" arbitrary: i X Y ext)
  case 0
  then show ?case by simp
next
  case (Suc j)
  then have i: "i < c" by simp
  have "int i * step \<le> int c * step"
    using i step by (intro mult_right_mono) auto
  with fits have pos: "0 \<le> int i * step" "int i * step + n + m \<le> int T"
    using step by auto
  have k: "int s + int i = int (s + i)" by simp
  obtain X1 Y1 ext1 where
    st: "example_step d n m step (int s) (int i) (X, Y, ext) = Inr (X1, Y1, ext1)"
    and b1: "length Y1 = length X1" "Suc (s + i) \<le> length X1" "0 < ext1"
    and t1: "take (Suc (s + i)) X1 = take (s + i) X @ [columns d (nat (int i * step)) (nat n)]"
      "take (Suc (s + i)) Y1 = take (s + i) Y @ [columns d (nat (int i * step + n)) (nat m)]"
    using example_step_ok[OF rows d sz pos k Suc.prems(2,3,4)] by blast
  have "j = c - Suc i" using Suc.hyps(2) by simp
  moreover have "Suc i \<le> c" using i by simp
  moreover have "s + Suc i \<le> length X1" using b1 by simp
  ultimately obtain X' Y' ext' where
    lp: "example_loop d n m step (int s) (map int [Suc i..<c]) (X1, Y1, ext1) = Inr (X', Y', ext')"
    and b2: "length Y' = length X'" "s + c \<le> length X'" "0 < ext'"
    and t2: "take (s + c) X' =
        take (s + Suc i) X1 @ map (\<lambda>j. columns d (nat (int j * step)) (nat n)) [Suc i..<c]"
      "take (s + c) Y' =
        take (s + Suc i) Y1 @ map (\<lambda>j. columns d (nat (int j * step + n)) (nat m)) [Suc i..<c]"
    using Suc.hyps(1)[of "Suc i" ext1 Y1 X1] b1 by blast
  have "example_loop d n m step (int s) (map int [i..<c]) (X, Y, ext) = Inr (X', Y', ext')"
    using i st lp by (simp add: upt_conv_Cons and_then_Inr)
  moreover have "take (s + c) X' =
        take (s + i) X @ map (\<lambda>j. columns d (nat (int j * step)) (nat n)) [i..<c]"
    using t1 t2 i by (simp add: upt_conv_Cons)
  moreover have "take (s + c) Y' =
        take (s + i) Y @ map (\<lambda>j. columns d (nat (int j * step + n)) (nat m)) [i..<c]"
    using t1 t2 i by (simp add: upt_conv_Cons)
  ultimately show ?case using b2 by blast
qed



lemma div_mult_le_int: "0 < (b::int) \<Longrightarrow> a div b * b \<le> a"
  by (simp add: minus_mod_eq_div_mult[symmetric])

lemma file_step_ok:
  assumes d: "long_enough n m d" and sz: "0 \<le> n" "0 \<le> m" and step: "1 \<le> step"
    and buf: "0 < ext" "length Y = length X" "s \<le> length X"
  shows "\<exists>X' Y' ext'.
      file_step n m step d ((X, Y, ext), int s)
        = Inr ((X', Y', ext'), int (s + nat (num_examples (n + m) step d))) \<and>
      length Y' = length X' \<and> s + nat (num_examples (n + m) step d) \<le> length X' \<and> 0 < ext' \<and>
      take (s + nat (num_examples (n + m) step d)) X' = take s X @ file_inputs n m step d \<and>
      take (s + nat (num_examples (n + m) step d)) Y' = take s Y @ file_outputs n m step d"
proof -
  let ?T = "shape1 d"
  let ?c = "nat (num_examples (n + m) step d)"
  have rows: "\<forall>row \<in> set d. length row = ?T" and len: "length d = 128"
    and long: "n + m \<le> int ?T"
    using d by (auto simp: long_enough_def timestep_matrix_def)
  have nonneg: "0 \<le> num_examples (n + m) step d"
    using long step by (simp add: num_examples_def pos_imp_zdiv_nonneg_iff)
  have "num_examples (n + m) step d * step \<le> int ?T - (n + m)"
    unfolding num_examples_def using step by (intro div_mult_le_int) simp
  with nonneg have fits: "int ?c * step + n + m \<le> int ?T" by simp
  have step0: "0 \<le> step" using step by simp
  obtain X' Y' ext' where
    lp: "example_loop d n m step (int s) (map int [0..<?c]) (X, Y, ext) = Inr (X', Y', ext')"
    and b: "length Y' = length X'" "s + ?c \<le> length X'" "0 < ext'"
    and t: "take (s + ?c) X' =
        take (s + 0) X @ map (\<lambda>j. columns d (nat (int j * step)) (nat n)) [0..<?c]"
      "take (s + ?c) Y' =
        take (s + 0) Y @ map (\<lambda>j. columns d (nat (int j * step + n)) (nat m)) [0..<?c]"
    using example_loop_ok[OF rows len sz step0 fits, of 0 ext Y X s] buf by auto
  have "file_step n m step d ((X, Y, ext), int s) = Inr ((X', Y', ext'), int (s + ?c))"
    using step nonneg lp
    by (simp add: file_step_def Let_def py_range_def num_examples_def and_then_Inr)
  then show ?thesis
    using b t by (simp add: file_inputs_def file_outputs_def)
qed

lemma file_loop_ok:
  assumes sz: "0 \<le> n" "0 \<le> m" and step: "1 \<le> step"
  shows "\<forall>d \<in> set files. long_enough n m d \<Longrightarrow>
    0 < ext \<Longrightarrow> length Y = length X \<Longrightarrow> s \<le> length X \<Longrightarrow>
    \<exists>X' Y' ext' t.
      file_loop n m step files ((X, Y, ext), int s) = Inr ((X', Y', ext'), int t) \<and>
      t \<le> length X' \<and> t \<le> length Y' \<and>
      t = s + sum_list (map (\<lambda>d. nat (num_examples (n + m) step d)) files) \<and>
      take t X' = take s X @ concat (map (file_inputs n m step) files) \<and>
      take t Y' = take s Y @ concat (map (file_outputs n m step) files)"
proof (induction files arbitrary: X Y ext s)
  case Nil
  then show ?case by simp
next
  case (Cons d files)
  let ?c = "nat (num_examples (n + m) step d)"
  have d: "long_enough n m d" using Cons.prems(1) by simp
  obtain X1 Y1 ext1 where
    fs: "file_step n m step d ((X, Y, ext), int s) = Inr ((X1, Y1, ext1), int (s + ?c))"
    and b1: "length Y1 = length X1" "s + ?c \<le> length X1" "0 < ext1"
    and t1: "take (s + ?c) X1 = take s X @ file_inputs n m step d"
      "take (s + ?c) Y1 = take s Y @ file_outputs n m step d"
    using file_step_ok[OF d sz step Cons.prems(2,3,4)] by blast
  have rest: "\<forall>d \<in> set files. long_enough n m d" using Cons.prems(1) by simp
  obtain X' Y' ext' t where
    fl: "file_loop n m step files ((X1, Y1, ext1), int (s + ?c)) = Inr ((X', Y', ext'), int t)"
    and b2: "t \<le> length X'" "t \<le> length Y'"
      "t = s + ?c + sum_list (map (\<lambda>d. nat (num_examples (n + m) step d)) files)"
    and t2: "take t X' = take (s + ?c) X1 @ concat (map (file_inputs n m step) files)"
      "take t Y' = take (s + ?c) Y1 @ concat (map (file_outputs n m step) files)"
    using Cons.IH[OF rest b1(3) b1(1) b1(2)] by blast
  have res: "file_loop n m step (d # files) ((X, Y, ext), int s) = Inr ((X', Y', ext'), int t)"
    using fs fl by (simp add: and_then_Inr)
  have cnt: "t = s + sum_list (map (\<lambda>d. nat (num_examples (n + m) step d)) (d # files))"
    using b2(3) by simp
  have tx: "take t X' = take s X @ concat (map (file_inputs n m step) (d # files))"
    using t1 t2 by simp
  have ty: "take t Y' = take s Y @ concat (map (file_outputs n m step) (d # files))"
    using t1 t2 by simp
  show ?case using res b2(1,2) cnt tx ty by blast
qed

subsection \<open>\<^verbatim>\<open>txt_to_dataset\<close> on files that are long enough\<close>

lemma np_zeros_ok:
  "0 \<le> a \<Longrightarrow> 0 \<le> c \<Longrightarrow>
   np_zeros a 128 c = Inr (replicate (nat a) (replicate 128 (replicate (nat c) 0)))"
  by (simp add: np_zeros_def)

lemma txt_to_dataset_sizes:
  assumes "0 \<le> n" "0 \<le> m"
    and "file_loop n m step (txtfiles (dir_path self))
           ((replicate 10000 (replicate 128 (replicate (nat n) 0)),
             replicate 10000 (replicate 128 (replicate (nat m) 0)), 10000), 0)
         = Inr ((X', Y', ext'), t)"
  shows "txt_to_dataset txtfiles self (Some n) (Some m) step
         = Inr (py_slice X' 0 t, py_slice Y' 0 t)"
  using assms by (simp add: txt_to_dataset_def np_zeros_ok and_then_Inr)

lemma txt_to_dataset_default:
  "txt_to_dataset txtfiles self None output_window_size step
   = txt_to_dataset txtfiles self (Some 16) (Some 1) step"
  by (simp add: txt_to_dataset_def DEFAULT_NUM_INPUT_def DEFAULT_NUM_OUTPUT_def)

lemma txt_to_dataset_long_files:
  assumes sz: "0 \<le> n" "0 \<le> m" and step: "1 \<le> step"
    and files: "\<forall>d \<in> set (txtfiles (dir_path self)). long_enough n m d"
  shows "txt_to_dataset txtfiles self (Some n) (Some m) step
         = Inr (concat (map (file_inputs n m step) (txtfiles (dir_path self))),
                concat (map (file_outputs n m step) (txtfiles (dir_path self))))"
proof -
  let ?X = "replicate 10000 (replicate 128 (replicate (nat n) (0::real)))"
  let ?Y = "replicate 10000 (replicate 128 (replicate (nat m) (0::real)))"
  let ?fs = "txtfiles (dir_path self)"
  have "\<exists>X' Y' ext' t.
      file_loop n m step ?fs ((?X, ?Y, 10000), int 0) = Inr ((X', Y', ext'), int t) \<and>
      t \<le> length X' \<and> t \<le> length Y' \<and>
      t = 0 + sum_list (map (\<lambda>d. nat (num_examples (n + m) step d)) ?fs) \<and>
      take t X' = take 0 ?X @ concat (map (file_inputs n m step) ?fs) \<and>
      take t Y' = take 0 ?Y @ concat (map (file_outputs n m step) ?fs)"
    by (rule file_loop_ok[OF sz step files]) simp_all
  then obtain X' Y' ext' t where
    fl: "file_loop n m step ?fs ((?X, ?Y, 10000), 0) = Inr ((X', Y', ext'), int t)"
    and tx: "take t X' = concat (map (file_inputs n m step) ?fs)"
    and ty: "take t Y' = concat (map (file_outputs n m step) ?fs)"
    by auto
  show ?thesis
    using txt_to_dataset_sizes[where txtfiles = txtfiles and self = self, OF sz fl] tx ty by (simp add: py_slice_prefix)
qed

subsection \<open>Window sizes and the empty directory\<close>

text \<open>
  Claim C2 says that the two window-size defaults are resolved independently, so that
  a call giving only \<^verbatim>\<open>input_window_size\<close> uses output window size 1. The code
  resolves both on \<^verbatim>\<open>input_window_size\<close> (line 73): such a call has
  \<^verbatim>\<open>num_output_size = None\<close> and raises \<^verbatim>\<open>TypeError\<close> at line 79, whatever
  the directory holds; and an \<^verbatim>\<open>output_window_size\<close> given alone is ignored.
\<close>

theorem C2_output_default_follows_input:
  "txt_to_dataset txtfiles self (Some n) None step = Inl TypeError \<and>
   txt_to_dataset txtfiles self None (Some m) step
     = txt_to_dataset txtfiles self None None step"
  by (simp add: txt_to_dataset_def and_then_Inl)

text \<open>
  Over a directory with no text file the outer loop does not run, and the two arrays
  that are returned have no example, for the default window sizes and for two given
  sizes that are not negative.
\<close>

lemma txt_to_dataset_empty_directory:
  assumes "txtfiles (dir_path self) = []"
    and "input_window_size = None \<or>
         (\<exists>n m. input_window_size = Some n \<and> output_window_size = Some m \<and> 0 \<le> n \<and> 0 \<le> m)"
  shows "txt_to_dataset txtfiles self input_window_size output_window_size step
         = Inr ([], [])"
proof -
  have given: "txt_to_dataset txtfiles self (Some n) (Some m) step = Inr ([], [])"
    if "0 \<le> n" "0 \<le> m" for n m
    using that assms(1)
    by (simp add: txt_to_dataset_def np_zeros_ok and_then_Inr py_slice_prefix)
  show ?thesis
    using assms(2) given by (auto simp: txt_to_dataset_default)
qed

text \<open>
  Claim C8 says that over every directory with no text file \<^verbatim>\<open>txt_to_dataset\<close>
  returns two arrays with no example and does not raise. The call with the default sizes
  and the call with both sizes given do so; the call that gives only
  \<^verbatim>\<open>input_window_size\<close> raises \<^verbatim>\<open>TypeError\<close> at line 79, before a file is
  looked at, by the test of line 73.
\<close>

theorem C8_empty_directory_input_size_only:
  "txt_to_dataset (\<lambda>d. []) self None None step = Inr ([], []) \<and>
   txt_to_dataset (\<lambda>d. []) self (Some 8) (Some 1) step = Inr ([], []) \<and>
   txt_to_dataset (\<lambda>d. []) self (Some 8) None step = Inl TypeError"
proof -
  have "txt_to_dataset (\<lambda>d. []) self None None step = Inr ([], [])"
    by (rule txt_to_dataset_empty_directory) simp_all
  moreover have "txt_to_dataset (\<lambda>d. []) self (Some 8) (Some 1) step = Inr ([], [])"
    by (rule txt_to_dataset_empty_directory) simp_all
  moreover have "txt_to_dataset (\<lambda>d. []) self (Some 8) None step = Inl TypeError"
    by (simp add: txt_to_dataset_def and_then_Inl)
  ultimately show ?thesis by blast
qed

subsection \<open>Files shorter than one window pair\<close>

lemma shape1_replicate: "0 < k \<Longrightarrow> shape1 (replicate k r) = length r"
  by (cases k) (auto simp: shape1_def)

lemma file_step_none:
  assumes "step \<noteq> 0" "num_examples (n + m) step d \<le> 0"
  shows "file_step n m step d (st, t) = Inr (st, t + num_examples (n + m) step d)"
  using assms by (simp add: file_step_def py_range_def and_then_Inr)

lemma long_enough_replicate:
  "n + m \<le> int (length r) \<Longrightarrow> long_enough n m (replicate 128 r)"
  by (simp add: long_enough_def timestep_matrix_def shape1_replicate)

text \<open>
  Claim C5 says that the returned arrays hold exactly the examples of the files, with no
  zero row left from the buffers. A file narrower than one window pair has a negative
  \<^verbatim>\<open>num_examples\<close>, which line 119 adds to \<^verbatim>\<open>file_example_start_idx\<close>. For a
  directory with one file of 10 timesteps and the default sizes the index ends at \<open>-7\<close>,
  and \<^verbatim>\<open>X[:-7]\<close> is 9993 zero rows of the buffer, where the claim has no row.
\<close>

theorem C5_short_file_leaves_padding:
  "txt_to_dataset (\<lambda>d. [replicate 128 (replicate 10 0)]) self None None 1
   = Inr (replicate 9993 (replicate 128 (replicate 16 0)),
          replicate 9993 (replicate 128 (replicate 1 0)))"
proof -
  let ?d = "replicate 128 (replicate 10 (0::real))"
  let ?X = "replicate 10000 (replicate 128 (replicate (nat 16) (0::real)))"
  let ?Y = "replicate 10000 (replicate 128 (replicate (nat 1) (0::real)))"
  have ne: "num_examples 17 1 ?d = -7"
    by (simp add: num_examples_def shape1_replicate)
  have "file_step 16 1 1 ?d ((?X, ?Y, 10000), 0)
        = Inr ((?X, ?Y, 10000), 0 + num_examples (16 + 1) 1 ?d)"
    by (rule file_step_none) (simp_all add: ne)
  then have fl: "file_loop 16 1 1 [?d] ((?X, ?Y, 10000), 0) = Inr ((?X, ?Y, 10000), -7)"
    by (simp add: and_then_Inr ne)
  have "txt_to_dataset (\<lambda>d. [?d]) self (Some 16) (Some 1) 1
        = Inr (py_slice ?X 0 (-7), py_slice ?Y 0 (-7))"
    by (rule txt_to_dataset_sizes[where txtfiles = "\<lambda>d. [?d]"]) (simp, simp, rule fl)
  then show ?thesis
    by (simp add: txt_to_dataset_default py_slice_def)
qed

text \<open>
  Claim C1 says that a file with fewer timesteps than one window pair contributes no
  example and leaves the examples of the other files and the length of the result as they
  are. A file of 30 timesteps alone gives its 13 examples; followed by a file of 10
  timesteps, whose \<^verbatim>\<open>num_examples\<close> is \<open>-7\<close>, the result is cut to the first 6 of
  them.
\<close>

theorem C1_short_file_shortens_dataset:
  "txt_to_dataset (\<lambda>d. [replicate 128 (map real [0..<30])]) self None None 1
   = Inr (file_inputs 16 1 1 (replicate 128 (map real [0..<30])),
          file_outputs 16 1 1 (replicate 128 (map real [0..<30]))) \<and>
   length (file_inputs 16 1 1 (replicate 128 (map real [0..<30]))) = 13 \<and>
   txt_to_dataset (\<lambda>d. [replicate 128 (map real [0..<30]), replicate 128 (map real [0..<10])])
     self None None 1
   = Inr (take 6 (file_inputs 16 1 1 (replicate 128 (map real [0..<30]))),
          take 6 (file_outputs 16 1 1 (replicate 128 (map real [0..<30]))))"
proof -
  define long where "long = replicate 128 (map real [0..<30])"
  define short where "short = replicate 128 (map real [0..<10])"
  let ?X = "replicate 10000 (replicate 128 (replicate (nat 16) (0::real)))"
  let ?Y = "replicate 10000 (replicate 128 (replicate (nat 1) (0::real)))"
  have long: "long_enough 16 1 long"
    unfolding long_def by (rule long_enough_replicate) simp
  have n_long: "num_examples 17 1 long = 13"
    by (simp add: num_examples_def shape1_replicate long_def)
  have n_short: "num_examples 17 1 short = -7"
    by (simp add: num_examples_def shape1_replicate short_def)
  have one: "txt_to_dataset (\<lambda>d. [long]) self (Some 16) (Some 1) 1
      = Inr (file_inputs 16 1 1 long, file_outputs 16 1 1 long)"
    using txt_to_dataset_long_files[of 16 1 1 "\<lambda>d. [long]" self] long by simp
  have len: "length (file_inputs 16 1 1 long) = 13"
    by (simp add: file_inputs_def n_long del: upt_rec_numeral)
  have "\<exists>X' Y' ext' t.
      file_loop 16 1 1 [long] ((?X, ?Y, 10000), int 0) = Inr ((X', Y', ext'), int t) \<and>
      t \<le> length X' \<and> t \<le> length Y' \<and>
      t = 0 + sum_list (map (\<lambda>d. nat (num_examples (16 + 1) 1 d)) [long]) \<and>
      take t X' = take 0 ?X @ concat (map (file_inputs 16 1 1) [long]) \<and>
      take t Y' = take 0 ?Y @ concat (map (file_outputs 16 1 1) [long])"
    by (rule file_loop_ok) (simp_all add: long)
  then obtain X' Y' ext' t where
    fl: "file_loop 16 1 1 [long] ((?X, ?Y, 10000), 0) = Inr ((X', Y', ext'), int t)"
    and t: "t = nat (num_examples (16 + 1) 1 long)"
    and tx: "take t X' = file_inputs 16 1 1 long"
    and ty: "take t Y' = file_outputs 16 1 1 long"
    by auto
  have t13: "t = 13" using t by (simp add: n_long)
  have st: "file_step 16 1 1 long ((?X, ?Y, 10000), 0) = Inr ((X', Y', ext'), 13)"
    using fl t13 by (simp add: and_then_def split: sum.splits)
  have "file_step 16 1 1 short ((X', Y', ext'), 13)
        = Inr ((X', Y', ext'), 13 + num_examples (16 + 1) 1 short)"
    by (rule file_step_none) (simp_all add: n_short)
  then have "file_loop 16 1 1 [long, short] ((?X, ?Y, 10000), 0) = Inr ((X', Y', ext'), 6)"
    using st by (simp add: and_then_Inr n_short)
  then have "txt_to_dataset (\<lambda>d. [long, short]) self (Some 16) (Some 1) 1
      = Inr (py_slice X' 0 6, py_slice Y' 0 6)"
    by (intro txt_to_dataset_sizes[where txtfiles = "\<lambda>d. [long, short]"]) simp_all
  moreover have "py_slice X' 0 6 = take 6 (take t X')" "py_slice Y' 0 6 = take 6 (take t Y')"
    unfolding t13 by (simp_all add: py_slice_prefix)
  ultimately have two: "txt_to_dataset (\<lambda>d. [long, short]) self (Some 16) (Some 1) 1
      = Inr (take 6 (file_inputs 16 1 1 long), take 6 (file_outputs 16 1 1 long))"
    using tx ty by simp
  show ?thesis
    using one len two unfolding long_def short_def by (simp only: txt_to_dataset_default)
qed

subsection \<open>The two windows of an example\<close>

lemma columns_nth:
  assumes "\<forall>row \<in> set d. length row = T" "a + w \<le> T" "r < length d" "j < w"
  shows "columns d a w ! r ! j = d ! r ! (a + j)"
  using assms by (simp add: columns_def)

lemma columns_row_length:
  assumes "\<forall>row \<in> set d. length row = T" "a + w \<le> T" "r < length d"
  shows "length (columns d a w ! r) = w"
  using assms by (simp add: columns_def)

lemma py_range_bounds: "idx \<in> set (py_range k) \<Longrightarrow> 0 \<le> idx \<and> idx < k"
  by (auto simp: py_range_def)

text \<open>
  Claim C6: for a timestep matrix of width \<open>T\<close> and every example index \<open>idx\<close> that
  the inner loop draws from it, the input window is columns
  \<open>[idx * step, idx * step + n)\<close> and the output window is columns
  \<open>[idx * step + n, idx * step + n + m)\<close> of the matrix, where \<open>n\<close> and \<open>m\<close> are the
  input and output sizes: the output window starts where the input window ends, and both
  lie inside the matrix.
\<close>

theorem C6_windows:
  assumes "timestep_matrix d T" "1 \<le> step" "0 \<le> n" "0 \<le> m"
    and "idx \<in> set (py_range (num_examples (n + m) step d))"
  shows "input_x d n step idx = Inr (columns d (nat (idx * step)) (nat n)) \<and>
         output_y d n m step idx = Inr (columns d (nat (idx * step) + nat n) (nat m)) \<and>
         nat (idx * step) + nat n + nat m \<le> T \<and>
         (\<forall>r < 128. \<forall>j < nat n.
            columns d (nat (idx * step)) (nat n) ! r ! j = d ! r ! (nat (idx * step) + j)) \<and>
         (\<forall>r < 128. \<forall>j < nat m.
            columns d (nat (idx * step) + nat n) (nat m) ! r ! j
              = d ! r ! (nat (idx * step) + nat n + j)) \<and>
         (\<forall>r < 128. length (columns d (nat (idx * step)) (nat n) ! r) = nat n \<and>
            length (columns d (nat (idx * step) + nat n) (nat m) ! r) = nat m)"
proof -
  have rows: "\<forall>row \<in> set d. length row = T" and len: "length d = 128"
    using assms(1) by (auto simp: timestep_matrix_def)
  have T: "shape1 d = T" using assms(1) by (rule shape1_timestep_matrix)
  have idx: "0 \<le> idx" "idx < (int T - (n + m)) div step"
    using py_range_bounds[OF assms(5)] by (simp_all add: num_examples_def T)
  have "(idx + 1) * step \<le> (int T - (n + m)) div step * step"
    using idx assms(2) by (intro mult_right_mono) auto
  also have "\<dots> \<le> int T - (n + m)"
    using assms(2) by (intro div_mult_le_int) simp
  finally have "idx * step + step + n + m \<le> int T" by (simp add: algebra_simps)
  then have fits: "idx * step + n + m \<le> int T" using assms(2) by simp
  have pos: "0 \<le> idx * step" using idx assms(2) by simp
  have x: "input_x d n step idx = Inr (columns d (nat (idx * step)) (nat n))"
    using rows assms(3) pos fits assms(4) by (intro input_x_columns[where T = T]) auto
  have "nat (idx * step + n) = nat (idx * step) + nat n"
    using pos assms(3) by (simp add: nat_add_distrib)
  then have y: "output_y d n m step idx = Inr (columns d (nat (idx * step) + nat n) (nat m))"
    using output_y_columns[OF rows assms(3,4) pos fits] by simp
  have bound: "nat (idx * step) + nat n + nat m \<le> T"
    using fits pos assms(3,4) by linarith
  have "nat (idx * step) + nat n \<le> T" using bound by simp
  then show ?thesis
    using x y bound rows len by (simp add: columns_nth[where T = T] columns_row_length[where T = T])
qed

theorem C6_windows_witness:
  "timestep_matrix (replicate 128 (map real [0..<30])) 30 \<and>
   12 \<in> set (py_range (num_examples (16 + 1) 1 (replicate 128 (map real [0..<30])))) \<and>
   input_x (replicate 128 (map real [0..<30])) 16 1 12
     = Inr (columns (replicate 128 (map real [0..<30])) 12 16) \<and>
   output_y (replicate 128 (map real [0..<30])) 16 1 1 12
     = Inr (columns (replicate 128 (map real [0..<30])) 28 1)"
proof -
  let ?d = "replicate 128 (map real [0..<30])"
  have h1: "timestep_matrix ?d 30"
    by (simp add: timestep_matrix_def del: upt_rec_numeral)
  have "num_examples (16 + 1) 1 ?d = 13"
    by (simp add: num_examples_def shape1_replicate del: upt_rec_numeral)
  moreover have "(12::int) = int 12" "(12::nat) < 13" by simp_all
  ultimately have h2: "12 \<in> set (py_range (num_examples (16 + 1) 1 ?d))"
    unfolding py_range_def by (auto simp del: upt_rec_numeral)
  have "input_x ?d 16 1 12 = Inr (columns ?d (nat (12 * 1)) (nat 16)) \<and>
        output_y ?d 16 1 1 12 = Inr (columns ?d (nat (12 * 1) + nat 16) (nat 1))"
    using C6_windows[OF h1 _ _ _ h2] by simp
  then show ?thesis using h1 h2 by simp
qed

subsection \<open>Scaling, rounding and clamping in \<^verbatim>\<open>dataset_to_str\<close>\<close>

lemma flatten_map_ndarray: "flatten (map_ndarray f a) = map f (flatten a)"
  by (induction a) (simp_all add: map_concat comp_def cong: map_cong)

lemma vocabulary_indices_map:
  "vocabulary_indices self Y =
     map (\<lambda>v. min (max (np_around (v * of_int (int (length (int_to_data self))))) 0)
                (int (length (int_to_data self)) - 1))
       (flatten Y)"
  by (simp add: vocabulary_indices_def Let_def flatten_map_ndarray)


text \<open>
  Claim C3 says that every index that the scale-round-clamp steps produce is a key of
  \<^verbatim>\<open>int_to_data\<close>, so that the lookup of line 142 cannot fail. In a session as the
  constructor builds it the dictionary is empty, the steps give \<open>-1\<close> for every value,
  and \<^verbatim>\<open>dataset_to_str\<close> raises \<^verbatim>\<open>KeyError\<close> on every array with a first entry.
\<close>

theorem C3_lookup_fails_on_empty_vocabulary:
  "init directory_path ''word''
     = Inr \<lparr>data_to_int = [], int_to_data = [], dir_path = directory_path,
            sep_by_type = ''word''\<rparr> \<and>
   vocabulary_indices
     \<lparr>data_to_int = [], int_to_data = [], dir_path = directory_path, sep_by_type = ''word''\<rparr>
     (Arr [Scalar v]) = [- 1] \<and>
   dataset_to_str SEPARATOR
     \<lparr>data_to_int = [], int_to_data = [], dir_path = directory_path, sep_by_type = ''word''\<rparr>
     (Arr (Scalar v # Ys)) = Inl KeyError"
  by (simp add: init_def dataset_to_str_def vocabulary_indices_map np_around_def getitem_def
      and_then_Inl)

text \<open>
  Claim C4 says that every prediction value is scaled by the vocabulary size, rounded and
  clamped into \<open>[0, vocabulary_size - 1]\<close>, and that a value below 0 gives index 0. In
  a session as the constructor builds it the vocabulary size is 0: the value \<open>-1\<close> is
  scaled to 0, and the clamp of line 138 ends with the minimum with \<open>0 - 1\<close>, so the
  index is \<open>-1\<close>, below the interval, and not 0. The product \<open>-1 * 0\<close> is exact in
  every float type.
\<close>

theorem C4_negative_value_empty_vocabulary:
  "init directory_path ''word''
     = Inr \<lparr>data_to_int = [], int_to_data = [], dir_path = directory_path,
            sep_by_type = ''word''\<rparr> \<and>
   (- 1 :: real) < 0 \<and>
   vocabulary_indices
     \<lparr>data_to_int = [], int_to_data = [], dir_path = directory_path, sep_by_type = ''word''\<rparr>
     (Scalar (- 1)) = [- 1]"
  by (simp add: init_def vocabulary_indices_map np_around_def)

text \<open>
  Claim C7, amended: constructing with \<^verbatim>\<open>'word'\<close> or \<^verbatim>\<open>'char'\<close> succeeds and
  records the mode, with both dictionaries empty; with any other value the constructor
  calls \<^verbatim>\<open>exit(1)\<close>, which ends the process, and builds no session.
\<close>

theorem C7_construction:
  "(sep = ''word'' \<or> sep = ''char'' \<longrightarrow>
      init directory_path sep
        = Inr \<lparr>data_to_int = [], int_to_data = [], dir_path = directory_path,
               sep_by_type = sep\<rparr>) \<and>
   (sep \<noteq> ''word'' \<and> sep \<noteq> ''char'' \<longrightarrow>
      init directory_path sep = Inl (SystemExit 1) \<and>
      \<not> rejected_with_error_result (init directory_path sep))"
  by (auto simp: init_def rejected_with_error_result_def)

theorem C7_construction_witness:
  "init ''.'' ''char''
     = Inr \<lparr>data_to_int = [], int_to_data = [], dir_path = ''.'', sep_by_type = ''char''\<rparr> \<and>
   init ''.'' ''line'' = Inl (SystemExit 1)"
  using C7_construction[of "''char''" "''.''"] C7_construction[of "''line''" "''.''"]
  by simp

text \<open>
  Claim C7 as it is stated has a rejected construction return a configuration error and
  not end the process. For the mode \<^verbatim>\<open>'line'\<close> the constructor ends the process.
\<close>

theorem C7_exit_counterexample:
  "''line'' \<notin> set [''word'', ''char''] \<and> \<not> rejected_with_error_result (init ''.'' ''line'')"
  by (simp add: init_def rejected_with_error_result_def)

text \<open>
  Claim C10: in every state a session reaches, by its construction and any calls of
  \<^verbatim>\<open>midi_to_txt\<close>, \<^verbatim>\<open>txt_to_dataset\<close>, \<^verbatim>\<open>dataset_to_str\<close> and
  \<^verbatim>\<open>str_to_midi\<close>, the two vocabulary dictionaries are empty.
\<close>

theorem C10_vocabulary_stays_empty:
  "reachable self \<Longrightarrow> data_to_int self = [] \<and> int_to_data self = []"
proof (induction rule: reachable.induct)
  case (constructed directory_path sep self)
  then show ?case by (auto simp: init_def split: if_splits)
next
  case (called self c)
  then show ?case by (cases c) simp_all
qed

theorem C10_vocabulary_stays_empty_witness:
  "reachable (self_after \<lparr>data_to_int = [], int_to_data = [], dir_path = ''.'',
                sep_by_type = ''word''\<rparr> (Txt_to_dataset None None 1)) \<and>
   data_to_int (self_after \<lparr>data_to_int = [], int_to_data = [], dir_path = ''.'',
                sep_by_type = ''word''\<rparr> (Txt_to_dataset None None 1)) = [] \<and>
   int_to_data (self_after \<lparr>data_to_int = [], int_to_data = [], dir_path = ''.'',
                sep_by_type = ''word''\<rparr> (Txt_to_dataset None None 1)) = []"
proof -
  let ?s = "\<lparr>data_to_int = [], int_to_data = [], dir_path = ''.'', sep_by_type = ''word''\<rparr>"
  have "init ''.'' ''word'' = Inr ?s" by (simp add: init_def)
  then have "reachable ?s" by (rule constructed)
  then have r: "reachable (self_after ?s (Txt_to_dataset None None 1))" by (rule called)
  from C10_vocabulary_stays_empty[OF r] r show ?thesis by blast
qed

subsection \<open>Encoding and decoding a text\<close>













end
